theory Spec2Isabelle
  imports Complex_Main "HOL-Library.AList"
begin

section \<open>The HPF scoring engine (src/scoring/hpf\_scoring.py)\<close>

text \<open>
  The module holds one class, \<open>HPFScoring\<close>. Its numeric arrays are numpy arrays of
  floats; here a float is a \<open>real\<close> (no rounding, no NaN, no infinity), a 2-D array is
  the list of its rows, and a Python exception is the \<open>Inl\<close> branch of a sum.
\<close>

subsection \<open>Errors\<close>

text \<open>
  The exceptions the modelled code can raise. \<open>ShapeError\<close> stands for the error
  TensorFlow raises when two shapes do not broadcast. The last three constructors are
  the error names of the design document; no function below builds them.
\<close>

datatype error =
    ZeroDivisionError
  | IndexError
  | KeyError
  | ShapeError
  | FileNotFoundError
  | DownloadError
  | DecodeError
  | JsonError
  | EmptyInputError
  | CorruptModelError
  | ModelNotFoundError

fun collect :: "('e + 'a) list \<Rightarrow> 'e + 'a list" where
  "collect [] = Inr []"
| "collect (x # xs) =
     (case x of
        Inl e \<Rightarrow> Inl e
      | Inr v \<Rightarrow> (case collect xs of Inl e \<Rightarrow> Inl e | Inr vs \<Rightarrow> Inr (v # vs)))"

subsection \<open>Configuration and model state\<close>

text \<open>
  The constants imported from \<open>src.config\<close>, a module that is not part of the
  sources at hand: they are parameters of the model.
\<close>

record config =
  UNKNOWN_PACKAGES_THRESHOLD :: real
  MAX_COMPANION_REC_COUNT :: int
  HPF_SCORING_REGION :: string
  HPF_output_package_id_dict :: string
  HPF_output_manifest_id_dict :: string
  HPF_output_user_matrix :: string
  HPF_output_item_matrix :: string
  K :: int

text \<open>
  The attributes of an \<open>HPFScoring\<close> object. A dict is an association list in
  insertion order, which is the order Python iterates it in. The keys of
  \<open>manifest_id_dict\<close> are JSON object keys, that is text, and the code reads a matched
  key with \<open>int(...)\<close>: the model keeps each key as the integer \<open>int\<close> reads from it,
  so two entries may carry the same integer. \<open>theta_dummy\<close> is the rate vector of the
  Poisson distribution object the code stores under that name.
\<close>

record model =
  package_id_dict :: "(string \<times> int) list"
  id_package_dict :: "(int \<times> string) list"
  beta :: "real list list"
  theta :: "real list list"
  manifest_id_dict :: "(int \<times> int set) list"
  manifests :: nat
  packages :: nat
  theta_dummy :: "real list"
  dummy_result :: "real list list"

record recommendation =
  cooccurrence_probability :: real
  package_name :: string
  topic_list :: "string list"

subsection \<open>match\_manifest\<close>

text \<open>
  The \<open>for ... else\<close> loop over \<open>manifest_id_dict.items()\<close>: the key of the first
  entry whose set equals the input set, and \<open>-1\<close> when the loop ends without a break.
\<close>

fun match_manifest_loop :: "(int \<times> int set) list \<Rightarrow> int set \<Rightarrow> int" where
  "match_manifest_loop [] input_id_set = - 1"
| "match_manifest_loop ((manifest_id, dependency_set) # rest) input_id_set =
     (if dependency_set = input_id_set then manifest_id
      else match_manifest_loop rest input_id_set)"

definition match_manifest :: "model \<Rightarrow> int set \<Rightarrow> int" where
  "match_manifest m input_id_set = match_manifest_loop (manifest_id_dict m) input_id_set"

subsection \<open>Poisson scores\<close>

text \<open>
  \<open>Poisson(rate).prob(x)\<close> of the edward library, evaluated in a TensorFlow session.
  The probability mass function itself, \<open>pmf rate value\<close>, is a parameter: it comes
  from the library. The code applies it to a rate vector and a 2-D array, which
  broadcasts the vector along the rows; a list of rows carries no column count, so
  the shapes are compared row by row.
\<close>

definition broadcast_row ::
  "(real \<Rightarrow> real \<Rightarrow> real) \<Rightarrow> real list \<Rightarrow> real list \<Rightarrow> error + real list" where
  "broadcast_row pmf rate row =
     (if length rate = length row then Inr (map2 pmf rate row)
      else if length rate = 1 then Inr (map (pmf (hd rate)) row)
      else if length row = 1 then Inr (map (\<lambda>r. pmf r (hd row)) rate)
      else Inl ShapeError)"

definition poisson_prob ::
  "(real \<Rightarrow> real \<Rightarrow> real) \<Rightarrow> real list \<Rightarrow> real list list \<Rightarrow> error + real list list" where
  "poisson_prob pmf rate x = collect (map (broadcast_row pmf rate) x)"

text \<open>
  \<open>theta[manifest_id]\<close>: numpy indexing of a row by an integer, where a negative
  index counts from the end.
\<close>

definition np_row :: "'a list \<Rightarrow> int \<Rightarrow> error + 'a" where
  "np_row rows manifest_id =
     (if 0 \<le> manifest_id \<and> manifest_id < int (length rows)
      then Inr (rows ! nat manifest_id)
      else if manifest_id < 0 \<and> - int (length rows) \<le> manifest_id
      then Inr (rows ! nat (int (length rows) + manifest_id))
      else Inl IndexError)"

subsection \<open>normalize\_result\<close>

text \<open>
  \<open>ndarray.mean()\<close> of one row. numpy gives NaN (with a warning) for an empty row,
  where this quotient is \<open>0\<close>.
\<close>

definition mean :: "real list \<Rightarrow> real" where
  "mean xs = sum_list xs / real (length xs)"

definition normalize_result ::
  "model \<Rightarrow> real list list \<Rightarrow> int set \<Rightarrow> nat option \<Rightarrow> error + real list" where
  "normalize_result m result input_id_set array_len =
     (let array_len = (case array_len of None \<Rightarrow> packages m | Some n \<Rightarrow> n)
      in collect (map (\<lambda>i. if int i \<in> input_id_set then Inr (- 1)
                            else if i < length result then Inr (mean (result ! i))
                            else Inl IndexError)
                      [0..<array_len]))"

subsection \<open>filter\_recommendation\<close>

text \<open>
  \<open>ndarray.argsort()\<close>: the indices in ascending order of their scores. numpy does
  not fix the order of indices with equal scores; this definition keeps them in index
  order.
\<close>

definition argsort :: "real list \<Rightarrow> nat list" where
  "argsort result = sort_key (\<lambda>i. result ! i) [0..<length result]"

text \<open>
  The slice \<open>xs[-max_count:len(xs)]\<close>: a negative start counts from the end and is
  clamped to \<open>0\<close>, a start beyond the end is clamped to the length. For
  \<open>max_count = 0\<close> the start is \<open>0\<close> and the slice is the whole list.
\<close>

definition last_slice :: "int \<Rightarrow> 'a list \<Rightarrow> 'a list" where
  "last_slice max_count xs =
     (let n = int (length xs); start = - max_count;
          start = (if start < 0 then max (start + n) 0 else min start n)
      in drop (nat start) xs)"

definition filter_recommendation ::
  "model \<Rightarrow> real list \<Rightarrow> int \<Rightarrow> error + recommendation list" where
  "filter_recommendation m result max_count =
     (let highest_indices = last_slice max_count (argsort result)
      in collect (map (\<lambda>package_id.
                    case map_of (id_package_dict m) (int package_id) of
                      None \<Rightarrow> Inl KeyError
                    | Some name \<Rightarrow>
                        Inr \<lparr>cooccurrence_probability = result ! package_id * 100,
                             package_name = name,
                             topic_list = []\<rparr>)
                  highest_indices))"

subsection \<open>folding\_in\<close>

definition folding_in ::
  "config \<Rightarrow> (real \<Rightarrow> real \<Rightarrow> real) \<Rightarrow> model \<Rightarrow> int set \<Rightarrow> error + recommendation list" where
  "folding_in cfg pmf m input_id_set =
     (let manifest_id = match_manifest m input_id_set;
          result = (if manifest_id = - 1 then Inr (dummy_result m)
                    else (case np_row (theta m) manifest_id of
                            Inl e \<Rightarrow> Inl e
                          | Inr rate \<Rightarrow> poisson_prob pmf rate (beta m)))
      in case result of
           Inl e \<Rightarrow> Inl e
         | Inr result \<Rightarrow>
             (case normalize_result m result input_id_set None of
                Inl e \<Rightarrow> Inl e
              | Inr normalised_result \<Rightarrow>
                  filter_recommendation m normalised_result (MAX_COMPANION_REC_COUNT cfg)))"

subsection \<open>predict\<close>

text \<open>
  A Python set of names is a list without repetitions. CPython iterates a set of
  strings in an order that changes from run to run; the lists below are in the order
  of first occurrence, and the statements about them speak of their elements.
\<close>

definition set_add :: "'a \<Rightarrow> 'a list \<Rightarrow> 'a list" where
  "set_add x xs = (if x \<in> set xs then xs else xs @ [x])"

text \<open>
  One pass of the loop body. \<open>if package_id:\<close> tests the truth value of the result of
  \<open>dict.get\<close>: it is false for \<open>None\<close> and for the integer \<open>0\<close>.
\<close>

definition predict_step ::
  "model \<Rightarrow> string \<Rightarrow> int set \<times> (string \<times> string list) list \<times> string list
     \<Rightarrow> int set \<times> (string \<times> string list) list \<times> string list" where
  "predict_step m name st =
     (case st of (input_id_set, package_topic_dict, missing_packages) \<Rightarrow>
        (case map_of (package_id_dict m) name of
           None \<Rightarrow> (input_id_set, package_topic_dict, set_add name missing_packages)
         | Some package_id \<Rightarrow>
             if package_id \<noteq> 0
             then (insert package_id input_id_set,
                   AList.update name [] package_topic_dict,
                   missing_packages)
             else (input_id_set, package_topic_dict, set_add name missing_packages)))"

definition predict ::
  "config \<Rightarrow> (real \<Rightarrow> real \<Rightarrow> real) \<Rightarrow> model \<Rightarrow> string list
     \<Rightarrow> error + recommendation list \<times> (string \<times> string list) list \<times> string list" where
  "predict cfg pmf m input_stack =
     (let input_stack = remdups input_stack in
      case fold (predict_step m) input_stack ({}, [], []) of
        (input_id_set, package_topic_dict, missing_packages) \<Rightarrow>
          if length input_stack = 0 then Inl ZeroDivisionError
          else if real (length missing_packages) / real (length input_stack)
                    < UNKNOWN_PACKAGES_THRESHOLD cfg
          then (case folding_in cfg pmf m input_id_set of
                  Inl e \<Rightarrow> Inl e
                | Inr companion_recommendation \<Rightarrow>
                    Inr (companion_recommendation, package_topic_dict, missing_packages))
          else Inr ([], package_topic_dict, missing_packages))"

subsection \<open>Loading the model\<close>

text \<open>
  The local file system is a map from paths to file contents. The two data store
  classes (\<open>src.data_store\<close>) and \<open>scipy.sparse.load_npz\<close> are not part of the
  sources at hand. A data store is the record of what its methods answer: \<open>download\<close>
  is the content of a remote object, and \<open>read_json_file\<close> is split by the schema of
  the two JSON files the code reads with it. \<open>decode\<close>, a parameter of the loading
  functions, is \<open>load_npz\<close> followed by \<open>toarray\<close> on the content of a file.
\<close>

type_synonym blob = string
type_synonym filesystem = "string \<rightharpoonup> blob"

record datastore =
  is_S3DataStore :: bool
  src_dir :: string
  download :: "string \<Rightarrow> error + blob"
  read_package_id_json :: "string \<Rightarrow> error + (string \<times> int) list"
  read_manifest_id_json :: "string \<Rightarrow> error + (int \<times> int list) list"

text \<open>\<open>os.path.join\<close> of two POSIX path components.\<close>

definition os_path_join :: "string \<Rightarrow> string \<Rightarrow> string" where
  "os_path_join path b =
     (if b \<noteq> [] \<and> hd b = CHR ''/'' then b
      else if path = [] \<or> last path = CHR ''/'' then path @ b
      else path @ ''/'' @ b)"

text \<open>
  Modelled from the spec: \<open>S3DataStore.download_file(src, target)\<close>, whose code is
  missing; the storage contract is \<open>download(path) -> bytes\<close>, and the caller reads
  the bytes back from \<open>target\<close>, so a successful call leaves them in that file.
\<close>

definition download_file ::
  "datastore \<Rightarrow> string \<Rightarrow> string \<Rightarrow> filesystem \<Rightarrow> (error + unit) \<times> filesystem" where
  "download_file ds src target fs =
     (case download ds src of
        Inl e \<Rightarrow> (Inl e, fs)
      | Inr content \<Rightarrow> (Inr (), fs(target \<mapsto> content)))"

definition load_npz ::
  "(blob \<Rightarrow> error + real list list) \<Rightarrow> filesystem \<Rightarrow> string \<Rightarrow> error + real list list" where
  "load_npz decode fs path =
     (case fs path of None \<Rightarrow> Inl FileNotFoundError | Some content \<Rightarrow> decode content)"

definition os_remove :: "string \<Rightarrow> filesystem \<Rightarrow> (error + unit) \<times> filesystem" where
  "os_remove path fs =
     (if path \<in> dom fs then (Inr (), fs(path := None)) else (Inl FileNotFoundError, fs))"

text \<open>
  \<open>load_jsons\<close>. The dict comprehension \<open>{x: n for n, x in items}\<close> stores the
  pairs one after the other, so a later name replaces an earlier one under the same id.
\<close>

definition load_jsons :: "config \<Rightarrow> datastore \<Rightarrow> model \<Rightarrow> error + model" where
  "load_jsons cfg ds m =
     (let package_id_dict_filename =
            os_path_join (HPF_SCORING_REGION cfg) (HPF_output_package_id_dict cfg)
      in case read_package_id_json ds package_id_dict_filename of
           Inl e \<Rightarrow> Inl e
         | Inr pid \<Rightarrow>
             (let idp = fold (\<lambda>(n, x) d. AList.update x n d) pid [];
                  manifest_id_dict_filename =
                    os_path_join (HPF_SCORING_REGION cfg) (HPF_output_manifest_id_dict cfg)
              in case read_manifest_id_json ds manifest_id_dict_filename of
                   Inl e \<Rightarrow> Inl e
                 | Inr mid \<Rightarrow>
                     Inr (m\<lparr>package_id_dict := pid,
                            id_package_dict := idp,
                            manifest_id_dict := map (\<lambda>(n, x). (n, set x)) mid\<rparr>)))"

definition load_s3 ::
  "config \<Rightarrow> (blob \<Rightarrow> error + real list list) \<Rightarrow> datastore \<Rightarrow> model \<Rightarrow> filesystem
     \<Rightarrow> (error + model) \<times> filesystem" where
  "load_s3 cfg decode ds m fs =
     (let theta_matrix_filename =
            os_path_join (HPF_SCORING_REGION cfg) (HPF_output_user_matrix cfg)
      in case download_file ds theta_matrix_filename ''/tmp/user_matrix.npz'' fs of
           (Inl e, fs) \<Rightarrow> (Inl e, fs)
         | (Inr u, fs) \<Rightarrow>
      (case load_npz decode fs ''/tmp/user_matrix.npz'' of
           Inl e \<Rightarrow> (Inl e, fs)
         | Inr sparse_matrix \<Rightarrow>
      (let m = m\<lparr>theta := sparse_matrix\<rparr>
       in case os_remove ''/tmp/user_matrix.npz'' fs of
           (Inl e, fs) \<Rightarrow> (Inl e, fs)
         | (Inr u, fs) \<Rightarrow>
      (let beta_matrix_filename =
             os_path_join (HPF_SCORING_REGION cfg) (HPF_output_item_matrix cfg)
       in case download_file ds beta_matrix_filename ''/tmp/item_matrix.npz'' fs of
           (Inl e, fs) \<Rightarrow> (Inl e, fs)
         | (Inr u, fs) \<Rightarrow>
      (case load_npz decode fs ''/tmp/item_matrix.npz'' of
           Inl e \<Rightarrow> (Inl e, fs)
         | Inr sparse_matrix \<Rightarrow>
      (let m = m\<lparr>beta := sparse_matrix\<rparr>
       in case os_remove ''/tmp/item_matrix.npz'' fs of
           (Inl e, fs) \<Rightarrow> (Inl e, fs)
         | (Inr u, fs) \<Rightarrow> (load_jsons cfg ds m, fs)))))))"



subsection \<open>A concrete model\<close>

text \<open>
  The model of the scenarios: three packages \<open>a\<close>, \<open>b\<close>, \<open>c\<close> with the ids
  \<open>0\<close>, \<open>1\<close>, \<open>2\<close>, one manifest \<open>{0, 1}\<close> under the key \<open>0\<close>, a threshold of
  one half and at most five recommendations. \<open>example_pmf\<close> and \<open>example_decode\<close>
  take the place of the two library functions in closed examples; the general
  statements hold for every choice of them.
\<close>

definition example_pmf :: "real \<Rightarrow> real \<Rightarrow> real" where
  "example_pmf rate v = rate / (rate + v)"

definition example_decode :: "blob \<Rightarrow> error + real list list" where
  "example_decode content =
     (if content = ''theta'' then Inr [[1, 1]]
      else if content = ''beta'' then Inr [[1, 2], [2, 2], [3, 3]]
      else Inl DecodeError)"

definition scenario_config :: config where
  "scenario_config =
     \<lparr>UNKNOWN_PACKAGES_THRESHOLD = 1 / 2, MAX_COMPANION_REC_COUNT = 5,
      HPF_SCORING_REGION = ''maven'',
      HPF_output_package_id_dict = ''package_id_dict.json'',
      HPF_output_manifest_id_dict = ''manifest_id_dict.json'',
      HPF_output_user_matrix = ''user_matrix.npz'',
      HPF_output_item_matrix = ''item_matrix.npz'',
      K = 2\<rparr>"

definition scenario_datastore :: datastore where
  "scenario_datastore =
     \<lparr>is_S3DataStore = True, src_dir = ''/data'',
      download = (\<lambda>path. if path = ''maven/user_matrix.npz'' then Inr ''theta''
                         else if path = ''maven/item_matrix.npz'' then Inr ''beta''
                         else Inl DownloadError),
      read_package_id_json = (\<lambda>path. if path = ''maven/package_id_dict.json''
                         then Inr [(''a'', 0), (''b'', 1), (''c'', 2)] else Inl JsonError),
      read_manifest_id_json = (\<lambda>path. if path = ''maven/manifest_id_dict.json''
                         then Inr [(0, [0, 1])] else Inl JsonError)\<rparr>"

definition empty_filesystem :: filesystem where
  "empty_filesystem = Map.empty"

definition scenario_model :: model where
  "scenario_model =
     \<lparr>package_id_dict = [(''a'', 0), (''b'', 1), (''c'', 2)],
      id_package_dict = [(0, ''a''), (1, ''b''), (2, ''c'')],
      beta = [[1, 2], [2, 2], [3, 3]],
      theta = [[1, 1]],
      manifest_id_dict = [(0, {0, 1})],
      manifests = 1, packages = 3,
      theta_dummy = [1 / 2, 1 / 2],
      dummy_result = [[1 / 3, 1 / 5], [1 / 5, 1 / 5], [1 / 7, 1 / 7]]\<rparr>"

definition collision_datastore :: datastore where
  "collision_datastore =
     scenario_datastore\<lparr>read_package_id_json :=
       (\<lambda>path. if path = ''maven/package_id_dict.json''
               then Inr [(''a'', 1), (''b'', 1)] else Inl JsonError)\<rparr>"

definition corrupt_datastore :: datastore where
  "corrupt_datastore =
     scenario_datastore\<lparr>download :=
       (\<lambda>path. if path = ''maven/user_matrix.npz'' then Inr ''garbage''
               else if path = ''maven/item_matrix.npz'' then Inr ''beta''
               else Inl DownloadError)\<rparr>"

definition collision_model :: model where
  "collision_model =
     scenario_model\<lparr>package_id_dict := [(''a'', 1), (''b'', 1)],
                    id_package_dict := [(1, ''b'')]\<rparr>"

definition corrupt_item_datastore :: datastore where
  "corrupt_item_datastore =
     scenario_datastore\<lparr>download :=
       (\<lambda>path. if path = ''maven/user_matrix.npz'' then Inr ''theta''
               else if path = ''maven/item_matrix.npz'' then Inr ''garbage''
               else Inl DownloadError)\<rparr>"

section \<open>Properties\<close>

subsection \<open>Auxiliary facts\<close>

lemmas scenario_defs = scenario_config_def scenario_model_def
lemmas predict_defs = predict_def predict_step_def set_add_def
lemmas folding_defs = folding_in_def match_manifest_def normalize_result_def
  filter_recommendation_def argsort_def last_slice_def mean_def

lemma collect_map_Inr: "collect (map (\<lambda>x. Inr (f x)) xs) = Inr (map f xs)"
  by (induction xs) simp_all

lemma collect_map_Inr': "collect (map Inr ys) = Inr ys"
  by (induction ys) simp_all

lemma collect_eq_Inr: "collect xs = Inr ys \<longleftrightarrow> xs = map Inr ys"
proof
  show "collect xs = Inr ys \<Longrightarrow> xs = map Inr ys"
  proof (induction xs arbitrary: ys)
    case Nil
    then show ?case by simp
  next
    case (Cons x xs)
    then show ?case
      by (cases x; cases "collect xs") auto
  qed
next
  show "xs = map Inr ys \<Longrightarrow> collect xs = Inr ys"
    by (simp add: collect_map_Inr')
qed

lemma collect_map_all_Inr:
  "\<forall>x \<in> set xs. f x = Inr (g x) \<Longrightarrow> collect (map f xs) = Inr (map g xs)"
  by (induction xs) simp_all

lemma collect_length: "collect xs = Inr ys \<Longrightarrow> length ys = length xs"
  by (simp add: collect_eq_Inr)

lemma match_loop_found:
  "\<exists>p \<in> set d. snd p = ids \<Longrightarrow> (match_manifest_loop d ids, ids) \<in> set d"
  by (induction d ids rule: match_manifest_loop.induct) auto

lemma match_loop_none:
  "\<forall>p \<in> set d. snd p \<noteq> ids \<Longrightarrow> match_manifest_loop d ids = - 1"
  by (induction d ids rule: match_manifest_loop.induct) auto


lemma argsort_set: "set (argsort r) = {..<length r}"
  by (auto simp: argsort_def)

lemma argsort_length: "length (argsort r) = length r"
  by (simp add: argsort_def)

lemma argsort_distinct: "distinct (argsort r)"
  by (simp add: argsort_def)

lemma argsort_sorted: "sorted (map (\<lambda>i. r ! i) (argsort r))"
  by (simp add: argsort_def)

lemma last_slice_pos:
  "0 < max_count \<Longrightarrow> last_slice max_count xs = drop (length xs - nat max_count) xs"
  by (auto simp: last_slice_def Let_def max_def nat_diff_distrib intro!: arg_cong2[where f=drop])

lemma last_slice_length:
  "0 < max_count \<Longrightarrow> length (last_slice max_count xs) = min (nat max_count) (length xs)"
  by (auto simp: last_slice_pos)

lemma last_slice_subset: "set (last_slice max_count xs) \<subseteq> set xs"
  by (simp add: last_slice_def Let_def set_drop_subset)

lemma filter_recommendation_eq:
  assumes "\<forall>i < length result. map_of (id_package_dict m) (int i) \<noteq> None"
  shows "filter_recommendation m result max_count =
           Inr (map (\<lambda>i. \<lparr>cooccurrence_probability = result ! i * 100,
                           package_name = the (map_of (id_package_dict m) (int i)),
                           topic_list = []\<rparr>)
                    (last_slice max_count (argsort result)))"
proof -
  have "\<forall>i \<in> set (last_slice max_count (argsort result)). i < length result"
    using last_slice_subset[of max_count "argsort result"] argsort_set[of result] by auto
  then show ?thesis
    unfolding filter_recommendation_def Let_def
    by (intro collect_map_all_Inr) (use assms in \<open>auto split: option.splits\<close>)
qed


lemma sorted_drop_map: "sorted (map f xs) \<Longrightarrow> sorted (map f (drop n xs))"
  by (simp add: drop_map[symmetric] sorted_wrt_drop)

lemma scenario_ids_named:
  "\<forall>i < 3. map_of [(0::int, ''a''), (1, ''b''), (2, ''c'')] (int i) \<noteq> None"
  by (auto simp: less_Suc_eq numeral_3_eq_3)






lemma map_of_invert:
  "map_of (fold (\<lambda>(n, x) d. AList.update x n d) pid acc)
     = fold (\<lambda>(n, x) f. f(x \<mapsto> n)) pid (map_of acc)"
  by (induction pid arbitrary: acc) (auto simp: update_conv')

lemma fold_upd_other:
  "x \<notin> snd ` set pid \<Longrightarrow> fold (\<lambda>(n, x) f. f(x \<mapsto> n)) pid f0 x = f0 x"
  by (induction pid arbitrary: f0) auto

lemma fold_upd_member:
  "(n, x) \<in> set pid \<Longrightarrow> distinct (map snd pid)
     \<Longrightarrow> fold (\<lambda>(n, x) f. f(x \<mapsto> n)) pid f0 x = Some n"
proof (induction pid arbitrary: f0)
  case Nil
  then show ?case by simp
next
  case (Cons p pid)
  show ?case
  proof (cases "p = (n, x)")
    case True
    with Cons.prems have "x \<notin> snd ` set pid"
      by auto
    then have "fold (\<lambda>(n, x) f. f(x \<mapsto> n)) pid (f0(x \<mapsto> n)) x = (f0(x \<mapsto> n)) x"
      by (rule fold_upd_other)
    moreover have "fold (\<lambda>(n, x) f. f(x \<mapsto> n)) (p # pid) f0
                     = fold (\<lambda>(n, x) f. f(x \<mapsto> n)) pid (f0(x \<mapsto> n))"
      using True by simp
    ultimately show ?thesis
      by (simp only: fun_upd_same)
  next
    case False
    with Cons.prems have "(n, x) \<in> set pid" "distinct (map snd pid)"
      by auto
    then have "fold (\<lambda>(n, x) f. f(x \<mapsto> n)) pid ((\<lambda>(n, x) f. f(x \<mapsto> n)) p f0) x = Some n"
      by (rule Cons.IH)
    then show ?thesis
      by (simp only: fold_simps comp_apply)
  qed
qed

lemma invert_lookup:
  assumes "distinct (map fst pid)" and "distinct (map snd pid)"
  shows "map_of pid n = Some x
           \<longleftrightarrow> map_of (fold (\<lambda>(n, x) d. AList.update x n d) pid []) x = Some n"
proof
  assume "map_of pid n = Some x"
  then have "(n, x) \<in> set pid"
    by (rule map_of_SomeD)
  then show "map_of (fold (\<lambda>(n, x) d. AList.update x n d) pid []) x = Some n"
    using assms(2) by (simp add: map_of_invert fold_upd_member)
next
  assume r: "map_of (fold (\<lambda>(n, x) d. AList.update x n d) pid []) x = Some n"
  then have f: "fold (\<lambda>(n, x) f. f(x \<mapsto> n)) pid Map.empty x = Some n"
    by (simp add: map_of_invert)
  have "x \<in> snd ` set pid"
  proof (rule ccontr)
    assume "x \<notin> snd ` set pid"
    then have "fold (\<lambda>(n, x) f. f(x \<mapsto> n)) pid Map.empty x = None"
      by (simp add: fold_upd_other)
    with f show False by simp
  qed
  then obtain n' where m: "(n', x) \<in> set pid"
    by auto
  from m assms(2) have "fold (\<lambda>(n, x) f. f(x \<mapsto> n)) pid Map.empty x = Some n'"
    by (rule fold_upd_member)
  with f have "n' = n" by simp
  with m assms(1) show "map_of pid n = Some x"
    by simp
qed

lemma fold_upd_last:
  assumes "x \<notin> snd ` set back"
  shows "fold (\<lambda>(n, x) f. f(x \<mapsto> n)) (front @ (n, x) # back) f0 x = Some n"
proof -
  have "fold (\<lambda>(n, x) f. f(x \<mapsto> n)) (front @ (n, x) # back) f0
          = fold (\<lambda>(n, x) f. f(x \<mapsto> n)) back
              ((fold (\<lambda>(n, x) f. f(x \<mapsto> n)) front f0)(x \<mapsto> n))"
    by simp
  moreover from assms
  have "fold (\<lambda>(n, x) f. f(x \<mapsto> n)) back
              ((fold (\<lambda>(n, x) f. f(x \<mapsto> n)) front f0)(x \<mapsto> n)) x
          = ((fold (\<lambda>(n, x) f. f(x \<mapsto> n)) front f0)(x \<mapsto> n)) x"
    by (rule fold_upd_other)
  ultimately show ?thesis
    by (simp only: fun_upd_same)
qed






subsection \<open>predict\<close>

text \<open>
  Claim C1: in the scenario model with the threshold one half, \<open>predict(["a", "b"])\<close>
  is said to match the manifest of row \<open>0\<close>, to recommend the package with id \<open>2\<close> and
  to report no missing package. The code tests \<open>if package_id:\<close>, and the id of \<open>a\<close>
  is \<open>0\<close>: \<open>a\<close> is counted as missing, the ratio is one half, which is not below the
  threshold, and the call returns no recommendation and \<open>a\<close> as missing.
\<close>

theorem predict_scenario_a_b:
  "predict scenario_config pmf scenario_model [''a'', ''b'']
     = Inr ([], [(''b'', [])], [''a''])"
  by (simp add: predict_defs scenario_defs)

text \<open>
  Claim C2: the empty input stack is said to fail with \<open>EmptyInputError\<close> before any
  computation, without a division by zero. The code has no such guard: the loop runs
  over no name and the quotient \<open>len(missing_packages) / len(input_stack)\<close> raises
  \<open>ZeroDivisionError\<close>.
\<close>

theorem predict_empty_stack_counterexample:
  "predict scenario_config example_pmf scenario_model [] = Inl ZeroDivisionError
   \<and> predict scenario_config example_pmf scenario_model [] \<noteq> Inl EmptyInputError"
  by (simp add: predict_defs)

text \<open>
  Claim C2 as amended: for the empty input stack, and every configuration and model,
  \<open>predict\<close> fails with \<open>ZeroDivisionError\<close>, raised by the division that computes the
  ratio of missing packages; no recommendation is computed.
\<close>

theorem predict_empty_stack: "predict cfg pmf m [] = Inl ZeroDivisionError"
  by (simp add: predict_defs)

text \<open>
  Claim C3: no package of the resolved input set is said to appear among the
  recommendations. \<open>normalize_result\<close> gives the input ids the score \<open>-1\<close>, but
  \<open>filter_recommendation\<close>, whose docstring speaks of a threshold score, takes the
  last \<open>max_count\<close> indices of the ascending order whatever their score: with three
  packages and five places, \<open>predict(["b"])\<close> returns \<open>b\<close> itself, with the
  probability \<open>-100\<close>.
\<close>

theorem predict_scenario_b:
  "predict scenario_config pmf scenario_model [''b'']
     = Inr ([\<lparr>cooccurrence_probability = - 100, package_name = ''b'', topic_list = []\<rparr>,
             \<lparr>cooccurrence_probability = 100 / 7, package_name = ''c'', topic_list = []\<rparr>,
             \<lparr>cooccurrence_probability = 80 / 3, package_name = ''a'', topic_list = []\<rparr>],
            [(''b'', [])], [])"
  by (simp add: predict_defs scenario_defs folding_defs upt_rec)

text \<open>
  Claim C4: when the ratio of missing packages reaches the threshold, \<open>predict\<close> is
  said to return no recommendation and exactly the names the package dictionary does
  not resolve; the scenario is \<open>predict(["a", "z"])\<close> with the result \<open>["z"]\<close>. The
  code returns \<open>a\<close> as missing too: its id is \<open>0\<close>, which \<open>if package_id:\<close> takes for an
  unknown name (the order of the two names is the model's).
\<close>

theorem predict_scenario_a_z:
  "predict scenario_config pmf scenario_model [''a'', ''z'']
     = Inr ([], [], [''a'', ''z''])"
  by (simp add: predict_defs scenario_defs)

subsection \<open>match\_manifest\<close>

text \<open>
  Claim C5: manifest matching is exact set equality. A result other than \<open>-1\<close> is the
  key of an entry whose set equals the input set; when some entry's set equals the
  input set the result is the key of such an entry; when no entry's set equals the
  input set the result is \<open>-1\<close>. A manifest \<open>{1, 2}\<close> matches neither \<open>{1, 2, 3}\<close> nor
  \<open>{1}\<close>.
\<close>

theorem match_manifest_exact:
  "(match_manifest m ids \<noteq> - 1 \<longrightarrow> (match_manifest m ids, ids) \<in> set (manifest_id_dict m))
   \<and> ((\<exists>p \<in> set (manifest_id_dict m). snd p = ids)
          \<longrightarrow> (match_manifest m ids, ids) \<in> set (manifest_id_dict m))
   \<and> ((\<forall>p \<in> set (manifest_id_dict m). snd p \<noteq> ids) \<longrightarrow> match_manifest m ids = - 1)
   \<and> match_manifest (m\<lparr>manifest_id_dict := [(k, {1, 2})]\<rparr>) {1, 2, 3} = - 1
   \<and> match_manifest (m\<lparr>manifest_id_dict := [(k, {1, 2})]\<rparr>) {1} = - 1"
proof -
  have found: "(match_manifest m ids, ids) \<in> set (manifest_id_dict m)"
    if "\<exists>p \<in> set (manifest_id_dict m). snd p = ids"
    using that unfolding match_manifest_def by (rule match_loop_found)
  have none: "match_manifest m ids = - 1"
    if "\<forall>p \<in> set (manifest_id_dict m). snd p \<noteq> ids"
    using that unfolding match_manifest_def by (rule match_loop_none)
  have "{1, 2} \<noteq> {1, 2, 3 :: int}"
  proof
    assume "{1, 2} = {1, 2, 3 :: int}"
    then have "(3::int) \<in> {1, 2}" by blast
    then show False by simp
  qed
  moreover have "{1, 2} \<noteq> {1 :: int}"
  proof
    assume "{1, 2} = {1 :: int}"
    then have "(2::int) \<in> {1}" by blast
    then show False by simp
  qed
  ultimately have ex: "match_manifest (m\<lparr>manifest_id_dict := [(k, {1, 2})]\<rparr>) {1, 2, 3} = - 1"
    "match_manifest (m\<lparr>manifest_id_dict := [(k, {1, 2})]\<rparr>) {1} = - 1"
    by (simp_all add: match_manifest_def)
  from found none ex show ?thesis
    by blast
qed

theorem match_manifest_exact_witness:
  "match_manifest scenario_model {0, 1} \<noteq> - 1
   \<and> (\<exists>p \<in> set (manifest_id_dict scenario_model). snd p = {0, 1})
   \<and> (match_manifest scenario_model {0, 1}, {0, 1}) \<in> set (manifest_id_dict scenario_model)
   \<and> {1} \<notin> snd ` set (manifest_id_dict scenario_model)
   \<and> match_manifest scenario_model {1} = - 1"
proof -
  have a: "match_manifest scenario_model {0, 1} \<noteq> - 1"
    by (simp add: match_manifest_def scenario_model_def)
  have b: "\<forall>p \<in> set (manifest_id_dict scenario_model). snd p \<noteq> {1}"
    by (auto simp: scenario_model_def)
  have c: "\<exists>p \<in> set (manifest_id_dict scenario_model). snd p = {0, 1}"
    by (simp add: scenario_model_def)
  from b have d: "{1} \<notin> snd ` set (manifest_id_dict scenario_model)"
    by blast
  from a b c d match_manifest_exact [of scenario_model "{0, 1}"]
    match_manifest_exact [of scenario_model "{1}"]
  show ?thesis by blast
qed

subsection \<open>filter\_recommendation\<close>

text \<open>
  Claim C7: for every normalised score vector over the packages of the model and every
  set of excluded ids, \<open>filter_recommendation\<close> returns at most \<open>max_count\<close> entries
  and at least \<open>min(max_count, packages - |excluded|)\<close>. Here \<open>max_count\<close> is positive,
  as the configured number of recommendations is, and every id below \<open>packages\<close> has a
  name in \<open>id_package_dict\<close>, so that no lookup raises \<open>KeyError\<close>. (With
  \<open>max_count = 0\<close> the slice \<open>[-0:n]\<close> would be the whole list.)
\<close>

theorem filter_recommendation_count:
  assumes "0 < max_count"
    and "normalize_result m raw excluded None = Inr result"
    and "\<forall>i < packages m. map_of (id_package_dict m) (int i) \<noteq> None"
  shows "\<exists>recs. filter_recommendation m result max_count = Inr recs
           \<and> int (length recs) \<le> max_count
           \<and> min max_count (int (packages m) - int (card excluded)) \<le> int (length recs)"
proof -
  from assms(2) have len: "length result = packages m"
    by (auto simp: normalize_result_def dest: collect_length)
  with assms(3) have "\<forall>i < length result. map_of (id_package_dict m) (int i) \<noteq> None"
    by simp
  from filter_recommendation_eq [OF this, of max_count]
  obtain recs where r: "filter_recommendation m result max_count = Inr recs"
    and l: "length recs = length (last_slice max_count (argsort result))"
    by simp
  from l assms(1) len have "length recs = min (nat max_count) (packages m)"
    by (simp add: last_slice_length argsort_length)
  with assms(1) have "int (length recs) \<le> max_count"
    "min max_count (int (packages m) - int (card excluded)) \<le> int (length recs)"
    by auto
  with r show ?thesis by blast
qed

theorem filter_recommendation_count_witness:
  "(0::int) < 5
   \<and> normalize_result scenario_model (dummy_result scenario_model) {1} None
         = Inr [4 / 15, - 1, 1 / 7]
   \<and> int ` {..<packages scenario_model} \<subseteq> dom (map_of (id_package_dict scenario_model))
   \<and> (\<exists>recs. filter_recommendation scenario_model [4 / 15, - 1, 1 / 7] 5 = Inr recs
           \<and> int (length recs) \<le> 5
           \<and> min 5 (int (packages scenario_model) - int (card {1::int})) \<le> int (length recs))"
proof -
  have h1: "(0::int) < 5" by simp
  have h2: "normalize_result scenario_model (dummy_result scenario_model) {1} None
         = Inr [4 / 15, - 1, 1 / 7]"
    by (simp add: normalize_result_def scenario_model_def mean_def upt_rec)
  have h3: "\<forall>i < packages scenario_model.
              map_of (id_package_dict scenario_model) (int i) \<noteq> None"
    using scenario_ids_named by (simp add: scenario_model_def)
  then have h3': "int ` {..<packages scenario_model}
                    \<subseteq> dom (map_of (id_package_dict scenario_model))"
    by blast
  from h1 h2 h3' filter_recommendation_count [OF h1 h2 h3] show ?thesis
    by blast
qed

text \<open>
  Claim C8: \<open>filter_recommendation\<close> sorts the scores in ascending order and takes the
  last \<open>max_count\<close> indices, so the returned list runs from the lowest of the top scores
  to the highest; each entry carries the name \<open>id_package_dict\<close> gives the index, an
  empty topic list and the score multiplied by \<open>100\<close>. As for C7, \<open>max_count\<close> is
  positive and every index of the score vector has a name.
\<close>

theorem filter_recommendation_order:
  assumes "0 < max_count"
    and "\<forall>i < length result. map_of (id_package_dict m) (int i) \<noteq> None"
  shows "\<exists>recs top. filter_recommendation m result max_count = Inr recs
           \<and> top = drop (length result - nat max_count) (argsort result)
           \<and> sorted (map (\<lambda>i. result ! i) (argsort result))
           \<and> distinct (argsort result) \<and> set (argsort result) = {..<length result}
           \<and> map cooccurrence_probability recs = map (\<lambda>i. result ! i * 100) top
           \<and> map (\<lambda>r. Some (package_name r)) recs
                 = map (\<lambda>i. map_of (id_package_dict m) (int i)) top
           \<and> map topic_list recs = replicate (length top) []
           \<and> sorted (map cooccurrence_probability recs)"
proof -
  define top where "top = drop (length result - nat max_count) (argsort result)"
  define recs where "recs = map (\<lambda>i. \<lparr>cooccurrence_probability = result ! i * 100,
                           package_name = the (map_of (id_package_dict m) (int i)),
                           topic_list = []\<rparr>) top"
  have slice: "last_slice max_count (argsort result) = top"
    using assms(1) by (simp add: last_slice_pos top_def argsort_length)
  have r: "filter_recommendation m result max_count = Inr recs"
    using filter_recommendation_eq [OF assms(2), of max_count] by (simp add: slice recs_def)
  have sub: "set top \<subseteq> {..<length result}"
    using set_drop_subset[of "length result - nat max_count" "argsort result"]
    by (simp add: top_def argsort_set)
  have p: "map cooccurrence_probability recs = map (\<lambda>i. result ! i * 100) top"
    by (simp add: recs_def comp_def)
  have n: "map (\<lambda>r. Some (package_name r)) recs
                 = map (\<lambda>i. map_of (id_package_dict m) (int i)) top"
    using sub assms(2) by (auto simp: recs_def)
  have t: "map topic_list recs = replicate (length top) []"
    by (simp add: recs_def comp_def map_replicate_const)
  have "sorted (map (\<lambda>i. result ! i) top)"
    unfolding top_def by (rule sorted_drop_map) (rule argsort_sorted)
  then have "sorted (map (\<lambda>i. result ! i * 100) top)"
    by (simp add: sorted_wrt_map sorted_map)
  with p have s: "sorted (map cooccurrence_probability recs)"
    by simp
  from r p n t s argsort_sorted[of result] argsort_distinct[of result] argsort_set[of result]
  show ?thesis
    unfolding top_def by blast
qed

theorem filter_recommendation_order_witness:
  "(0::int) < 2
   \<and> int ` {..<length [4 / 15, - 1, 1 / 7 :: real]}
         \<subseteq> dom (map_of (id_package_dict scenario_model))
   \<and> argsort [4 / 15, - 1, 1 / 7] = [1, 2, 0]
   \<and> filter_recommendation scenario_model [4 / 15, - 1, 1 / 7] 2
         = Inr [\<lparr>cooccurrence_probability = 100 / 7, package_name = ''c'', topic_list = []\<rparr>,
                \<lparr>cooccurrence_probability = 80 / 3, package_name = ''a'', topic_list = []\<rparr>]
   \<and> (\<exists>recs. filter_recommendation scenario_model [4 / 15, - 1, 1 / 7] 2 = Inr recs
         \<and> sorted (map cooccurrence_probability recs))"
proof -
  have h1: "(0::int) < 2" by simp
  have h2: "\<forall>i < length [4 / 15, - 1, 1 / 7 :: real].
              map_of (id_package_dict scenario_model) (int i) \<noteq> None"
    using scenario_ids_named by (simp add: scenario_model_def)
  then have h2': "int ` {..<length [4 / 15, - 1, 1 / 7 :: real]}
                    \<subseteq> dom (map_of (id_package_dict scenario_model))"
    by blast
  have a: "argsort [4 / 15, - 1, 1 / 7] = [1, 2, 0]"
    by (simp add: argsort_def upt_rec)
  have e: "filter_recommendation scenario_model [4 / 15, - 1, 1 / 7] 2
         = Inr [\<lparr>cooccurrence_probability = 100 / 7, package_name = ''c'', topic_list = []\<rparr>,
                \<lparr>cooccurrence_probability = 80 / 3, package_name = ''a'', topic_list = []\<rparr>]"
    by (simp add: filter_recommendation_def a last_slice_def scenario_model_def)
  from filter_recommendation_order [OF h1 h2]
  have t: "\<exists>recs. filter_recommendation scenario_model [4 / 15, - 1, 1 / 7] 2 = Inr recs
         \<and> sorted (map cooccurrence_probability recs)"
    by (elim exE conjE) (intro exI conjI, assumption+)
  from h1 h2' a e t show ?thesis
    by (intro conjI)
qed

subsection \<open>folding\_in\<close>



subsection \<open>Loading\<close>

text \<open>
  Claim C6: \<open>id_package_dict\<close> is said to be exactly the inverse of
  \<open>package_id_dict\<close>, and its construction to fail with \<open>CorruptModelError\<close> when
  the mapping from names to ids is not injective. The code does not check: with
  \<open>a\<close> and \<open>b\<close> both under the id \<open>1\<close> the load succeeds, the inverse keeps \<open>b\<close>
  alone, and \<open>a\<close> goes to \<open>1\<close> and back to \<open>b\<close>.
\<close>

theorem load_jsons_collision_counterexample:
  "load_jsons scenario_config collision_datastore scenario_model = Inr collision_model
   \<and> map_of (package_id_dict collision_model) ''a'' = Some 1
   \<and> map_of (id_package_dict collision_model) 1 = Some ''b''"
  by (simp add: load_jsons_def collision_datastore_def scenario_datastore_def scenario_config_def
      scenario_model_def collision_model_def os_path_join_def)

text \<open>
  Claim C6 as amended: whenever the two JSON files are read, the first as an object from
  names to integer ids and the second as an object from manifest keys to lists of ids,
  \<open>load_jsons\<close> succeeds, whether the mapping from names to ids is injective or not, and
  no \<open>CorruptModelError\<close> is raised. \<open>id_package_dict\<close> gives every id the name listed
  last under it in \<open>package_id_dict\<close> (a later name replaces an earlier one) and holds no
  other id. So when the mapping is injective (no name twice, as in every dict, and no id
  twice), \<open>id_package_dict\<close> is exactly the inverse of \<open>package_id_dict\<close>, and name to
  id to name is the identity for every loaded name.
\<close>

theorem load_jsons_inverse:
  assumes "read_package_id_json ds
             (os_path_join (HPF_SCORING_REGION cfg) (HPF_output_package_id_dict cfg)) = Inr pid"
    and "read_manifest_id_json ds
             (os_path_join (HPF_SCORING_REGION cfg) (HPF_output_manifest_id_dict cfg)) = Inr mid"
  shows "\<exists>m. load_jsons cfg ds m0 = Inr m \<and> package_id_dict m = pid
           \<and> manifest_id_dict m = map (\<lambda>(k, ids). (k, set ids)) mid
           \<and> (\<forall>front n x back. pid = front @ (n, x) # back \<and> x \<notin> snd ` set back
                  \<longrightarrow> map_of (id_package_dict m) x = Some n)
           \<and> (\<forall>x. x \<notin> snd ` set pid \<longrightarrow> map_of (id_package_dict m) x = None)
           \<and> (distinct (map fst pid) \<and> distinct (map snd pid) \<longrightarrow>
                (\<forall>n x. map_of (package_id_dict m) n = Some x
                         \<longleftrightarrow> map_of (id_package_dict m) x = Some n))"
proof -
  define m where
    "m = m0\<lparr>package_id_dict := pid,
              id_package_dict := fold (\<lambda>(n, x) d. AList.update x n d) pid [],
              manifest_id_dict := map (\<lambda>(n, x). (n, set x)) mid\<rparr>"
  have l: "load_jsons cfg ds m0 = Inr m"
    using assms by (simp add: load_jsons_def m_def)
  have p: "package_id_dict m = pid"
    and i: "id_package_dict m = fold (\<lambda>(n, x) d. AList.update x n d) pid []"
    and k: "manifest_id_dict m = map (\<lambda>(k, ids). (k, set ids)) mid"
    by (simp_all add: m_def)
  have last: "\<forall>front n x back. pid = front @ (n, x) # back \<and> x \<notin> snd ` set back
                  \<longrightarrow> map_of (id_package_dict m) x = Some n"
    unfolding i map_of_invert using fold_upd_last by fastforce
  have none: "\<forall>x. x \<notin> snd ` set pid \<longrightarrow> map_of (id_package_dict m) x = None"
    unfolding i map_of_invert by (simp add: fold_upd_other)
  have inv: "distinct (map fst pid) \<and> distinct (map snd pid) \<longrightarrow>
          (\<forall>n x. map_of (package_id_dict m) n = Some x
                   \<longleftrightarrow> map_of (id_package_dict m) x = Some n)"
    unfolding p i using invert_lookup [of pid] by blast
  from l p k last none inv show ?thesis
    by (intro exI [of _ m] conjI)
qed

theorem load_jsons_inverse_witness:
  "read_package_id_json scenario_datastore
       (os_path_join (HPF_SCORING_REGION scenario_config)
          (HPF_output_package_id_dict scenario_config))
     = Inr [(''a'', 0), (''b'', 1), (''c'', 2)]
   \<and> read_manifest_id_json scenario_datastore
       (os_path_join (HPF_SCORING_REGION scenario_config)
          (HPF_output_manifest_id_dict scenario_config))
     = Inr [(0, [0, 1])]
   \<and> distinct (map fst [(''a'', 0 :: int), (''b'', 1), (''c'', 2)])
   \<and> distinct (map snd [(''a'', 0 :: int), (''b'', 1), (''c'', 2)])
   \<and> load_jsons scenario_config scenario_datastore scenario_model = Inr scenario_model
   \<and> map_of (package_id_dict scenario_model) ''b'' = Some 1
   \<and> map_of (id_package_dict scenario_model) 1 = Some ''b''
   \<and> read_package_id_json collision_datastore
       (os_path_join (HPF_SCORING_REGION scenario_config)
          (HPF_output_package_id_dict scenario_config))
     = Inr [(''a'', 1), (''b'', 1)]
   \<and> [(''a'', 1 :: int), (''b'', 1)] = [(''a'', 1)] @ (''b'', 1) # []
   \<and> (1 :: int) \<notin> snd ` set ([] :: (string \<times> int) list)
   \<and> (7 :: int) \<notin> snd ` set [(''a'', 1), (''b'', 1)]
   \<and> load_jsons scenario_config collision_datastore scenario_model = Inr collision_model
   \<and> map_of (id_package_dict collision_model) 1 = Some ''b''
   \<and> map_of (id_package_dict collision_model) 7 = None"
proof -
  have h1: "read_package_id_json scenario_datastore
       (os_path_join (HPF_SCORING_REGION scenario_config)
          (HPF_output_package_id_dict scenario_config))
     = Inr [(''a'', 0), (''b'', 1), (''c'', 2)]"
    by (simp add: scenario_datastore_def scenario_config_def os_path_join_def)
  have h2: "read_manifest_id_json scenario_datastore
       (os_path_join (HPF_SCORING_REGION scenario_config)
          (HPF_output_manifest_id_dict scenario_config))
     = Inr [(0, [0, 1])]"
    by (simp add: scenario_datastore_def scenario_config_def os_path_join_def)
  have h3: "read_package_id_json collision_datastore
       (os_path_join (HPF_SCORING_REGION scenario_config)
          (HPF_output_package_id_dict scenario_config))
     = Inr [(''a'', 1), (''b'', 1)]"
    by (simp add: collision_datastore_def scenario_datastore_def scenario_config_def
        os_path_join_def)
  have h4: "read_manifest_id_json collision_datastore
       (os_path_join (HPF_SCORING_REGION scenario_config)
          (HPF_output_manifest_id_dict scenario_config))
     = Inr [(0, [0, 1])]"
    by (simp add: collision_datastore_def scenario_datastore_def scenario_config_def
        os_path_join_def)
  have d: "distinct (map fst [(''a'', 0 :: int), (''b'', 1), (''c'', 2)])"
    "distinct (map snd [(''a'', 0 :: int), (''b'', 1), (''c'', 2)])"
    by simp_all
  have s: "[(''a'', 1 :: int), (''b'', 1)] = [(''a'', 1)] @ (''b'', 1) # []"
    "(1 :: int) \<notin> snd ` set ([] :: (string \<times> int) list)"
    "(7 :: int) \<notin> snd ` set [(''a'', 1), (''b'', 1)]"
    by simp_all
  from load_jsons_inverse [OF h1 h2, of scenario_model] d
  obtain m where l: "load_jsons scenario_config scenario_datastore scenario_model = Inr m"
    and inv: "\<forall>n x. map_of (package_id_dict m) n = Some x
                         \<longleftrightarrow> map_of (id_package_dict m) x = Some n"
    by blast
  have e: "load_jsons scenario_config scenario_datastore scenario_model = Inr scenario_model"
    by (simp add: load_jsons_def scenario_datastore_def scenario_config_def
        scenario_model_def os_path_join_def)
  with l have "m = scenario_model" by simp
  moreover have b: "map_of (package_id_dict scenario_model) ''b'' = Some 1"
    by (simp add: scenario_model_def)
  ultimately have r: "map_of (id_package_dict scenario_model) 1 = Some ''b''"
    using inv by blast
  from load_jsons_inverse [OF h3 h4, of scenario_model]
  obtain m' where l': "load_jsons scenario_config collision_datastore scenario_model = Inr m'"
    and last: "\<forall>front n x back.
                 [(''a'', 1 :: int), (''b'', 1)] = front @ (n, x) # back \<and> x \<notin> snd ` set back
                  \<longrightarrow> map_of (id_package_dict m') x = Some n"
    and none: "\<forall>x. x \<notin> snd ` set [(''a'', 1 :: int), (''b'', 1)]
                  \<longrightarrow> map_of (id_package_dict m') x = None"
    by blast
  have e': "load_jsons scenario_config collision_datastore scenario_model = Inr collision_model"
    by (simp add: load_jsons_def collision_datastore_def scenario_datastore_def
        scenario_config_def scenario_model_def collision_model_def os_path_join_def)
  with l' have m': "m' = collision_model" by simp
  from last s(1,2) have r1: "map_of (id_package_dict m') 1 = Some ''b''"
    by blast
  from none s(3) have r2: "map_of (id_package_dict m') 7 = None"
    by blast
  from h1 h2 d e b r h3 s e' r1 r2 show ?thesis
    unfolding m' by (intro conjI)
qed

text \<open>
  Claim C10: the staging files \<open>/tmp/user_matrix.npz\<close> and \<open>/tmp/item_matrix.npz\<close>
  are said to be removed after decoding whether decoding succeeds or fails. The code
  calls \<open>os.remove\<close> after \<open>load_npz\<close> and \<open>toarray\<close> with no \<open>try ... finally\<close>: when
  \<open>load_npz\<close> raises, the downloaded file stays on disk.
\<close>

theorem load_s3_decode_failure_counterexample:
  "fst (load_s3 scenario_config example_decode corrupt_datastore scenario_model empty_filesystem)
     = Inl DecodeError
   \<and> snd (load_s3 scenario_config example_decode corrupt_datastore scenario_model
           empty_filesystem) ''/tmp/user_matrix.npz'' = Some ''garbage''"
  by (simp add: load_s3_def download_file_def load_npz_def os_remove_def corrupt_datastore_def
      scenario_datastore_def scenario_config_def example_decode_def os_path_join_def)

text \<open>
  Claim C10 as amended: in an S3 load, a staging file is removed once its matrix has
  been decoded; when both matrices are downloaded and decoded, neither file is left,
  whether the JSON load that follows succeeds or fails. When the decoding of a matrix
  fails, the load fails with that error and the file just downloaded stays on disk.
\<close>

theorem load_s3_staging_files:
  "(download ds (os_path_join (HPF_SCORING_REGION cfg) (HPF_output_user_matrix cfg)) = Inr tb
      \<and> decode tb = Inr t
      \<and> download ds (os_path_join (HPF_SCORING_REGION cfg) (HPF_output_item_matrix cfg)) = Inr bb
      \<and> decode bb = Inr b
    \<longrightarrow> load_s3 cfg decode ds m fs
          = (load_jsons cfg ds (m\<lparr>theta := t, beta := b\<rparr>),
             fs(''/tmp/user_matrix.npz'' := None, ''/tmp/item_matrix.npz'' := None)))
   \<and> (download ds (os_path_join (HPF_SCORING_REGION cfg) (HPF_output_user_matrix cfg)) = Inr tb
      \<and> decode tb = Inl e
    \<longrightarrow> load_s3 cfg decode ds m fs = (Inl e, fs(''/tmp/user_matrix.npz'' \<mapsto> tb)))
   \<and> (download ds (os_path_join (HPF_SCORING_REGION cfg) (HPF_output_user_matrix cfg)) = Inr tb
      \<and> decode tb = Inr t
      \<and> download ds (os_path_join (HPF_SCORING_REGION cfg) (HPF_output_item_matrix cfg)) = Inr bb
      \<and> decode bb = Inl e
    \<longrightarrow> load_s3 cfg decode ds m fs
          = (Inl e, fs(''/tmp/user_matrix.npz'' := None, ''/tmp/item_matrix.npz'' \<mapsto> bb)))"
  by (simp add: load_s3_def download_file_def load_npz_def os_remove_def)

theorem load_s3_staging_files_witness:
  "download scenario_datastore ''maven/user_matrix.npz'' = Inr ''theta''
   \<and> example_decode ''theta'' = Inr [[1, 1]]
   \<and> download scenario_datastore ''maven/item_matrix.npz'' = Inr ''beta''
   \<and> example_decode ''beta'' = Inr [[1, 2], [2, 2], [3, 3]]
   \<and> load_s3 scenario_config example_decode scenario_datastore scenario_model
         (empty_filesystem(''/tmp/item_matrix.npz'' \<mapsto> ''stale''))
       = (Inr scenario_model,
          empty_filesystem(''/tmp/item_matrix.npz'' \<mapsto> ''stale'',
            ''/tmp/user_matrix.npz'' := None, ''/tmp/item_matrix.npz'' := None))
   \<and> download corrupt_datastore ''maven/user_matrix.npz'' = Inr ''garbage''
   \<and> example_decode ''garbage'' = Inl DecodeError
   \<and> load_s3 scenario_config example_decode corrupt_datastore scenario_model empty_filesystem
       = (Inl DecodeError, empty_filesystem(''/tmp/user_matrix.npz'' \<mapsto> ''garbage''))
   \<and> download corrupt_item_datastore ''maven/item_matrix.npz'' = Inr ''garbage''
   \<and> load_s3 scenario_config example_decode corrupt_item_datastore scenario_model
         empty_filesystem
       = (Inl DecodeError,
          empty_filesystem(''/tmp/user_matrix.npz'' := None,
            ''/tmp/item_matrix.npz'' \<mapsto> ''garbage''))"
proof -
  have u: "os_path_join (HPF_SCORING_REGION scenario_config)
             (HPF_output_user_matrix scenario_config) = ''maven/user_matrix.npz''"
    and i: "os_path_join (HPF_SCORING_REGION scenario_config)
             (HPF_output_item_matrix scenario_config) = ''maven/item_matrix.npz''"
    by (simp_all add: scenario_config_def os_path_join_def)
  have d1: "download scenario_datastore ''maven/user_matrix.npz'' = Inr ''theta''"
    and d2: "download scenario_datastore ''maven/item_matrix.npz'' = Inr ''beta''"
    and d3: "download corrupt_datastore ''maven/user_matrix.npz'' = Inr ''garbage''"
    and d4: "download corrupt_item_datastore ''maven/user_matrix.npz'' = Inr ''theta''"
    and d5: "download corrupt_item_datastore ''maven/item_matrix.npz'' = Inr ''garbage''"
    by (simp_all add: scenario_datastore_def corrupt_datastore_def corrupt_item_datastore_def)
  have e1: "example_decode ''theta'' = Inr [[1, 1]]"
    and e2: "example_decode ''beta'' = Inr [[1, 2], [2, 2], [3, 3]]"
    and e3: "example_decode ''garbage'' = Inl DecodeError"
    by (simp_all add: example_decode_def)
  have j: "load_jsons scenario_config scenario_datastore
             (scenario_model\<lparr>theta := [[1, 1]], beta := [[1, 2], [2, 2], [3, 3]]\<rparr>)
           = Inr scenario_model"
    by (simp add: load_jsons_def scenario_datastore_def scenario_config_def
        scenario_model_def os_path_join_def)
  have a: "load_s3 scenario_config example_decode scenario_datastore scenario_model
         (empty_filesystem(''/tmp/item_matrix.npz'' \<mapsto> ''stale''))
       = (Inr scenario_model,
          empty_filesystem(''/tmp/item_matrix.npz'' \<mapsto> ''stale'',
            ''/tmp/user_matrix.npz'' := None, ''/tmp/item_matrix.npz'' := None))"
    using load_s3_staging_files [where ds = scenario_datastore and cfg = scenario_config and tb = "''theta''"
        and decode = example_decode and t = "[[1, 1]]" and bb = "''beta''"
        and b = "[[1, 2], [2, 2], [3, 3]]" and m = scenario_model
        and fs = "empty_filesystem(''/tmp/item_matrix.npz'' \<mapsto> ''stale'')"]
    unfolding u i using d1 d2 e1 e2 j by simp
  have b: "load_s3 scenario_config example_decode corrupt_datastore scenario_model
             empty_filesystem
       = (Inl DecodeError, empty_filesystem(''/tmp/user_matrix.npz'' \<mapsto> ''garbage''))"
    using load_s3_staging_files [where ds = corrupt_datastore and cfg = scenario_config and tb = "''garbage''"
        and decode = example_decode and e = DecodeError and m = scenario_model
        and fs = empty_filesystem]
    unfolding u i using d3 e3 by simp
  have c: "load_s3 scenario_config example_decode corrupt_item_datastore scenario_model
         empty_filesystem
       = (Inl DecodeError,
          empty_filesystem(''/tmp/user_matrix.npz'' := None,
            ''/tmp/item_matrix.npz'' \<mapsto> ''garbage''))"
    using load_s3_staging_files [where ds = corrupt_item_datastore and cfg = scenario_config
        and tb = "''theta''" and decode = example_decode and t = "[[1, 1]]"
        and bb = "''garbage''" and e = DecodeError and m = scenario_model
        and fs = empty_filesystem]
    unfolding u i using d4 d5 e1 e3 by simp
  from d1 d2 d3 d5 e1 e2 e3 a b c show ?thesis
    by (intro conjI)
qed

end
